theory Spec2Isabelle
  imports Complex_Main "HOL-Library.Sublist" "HOL-Library.List_Lexorder"
    "HOL-Library.Code_Target_Nat"
begin

section \<open>The todo list application of static/js/todo.js\<close>

text \<open>
  The class \<open>TodoApp\<close> keeps three fields of interest (\<open>todos\<close>, \<open>filteredTodos\<close>,
  \<open>currentPage\<close>), reads three input elements of the page whenever it filters, and talks
  to the remote service through \<open>axios\<close>. The model below passes the state explicitly.
  An \<open>async\<close> method touches the fields at one point only (before its \<open>await\<close> for
  \<open>toggleTodo\<close> and \<open>deleteTodo\<close>, after it for \<open>loadTodos\<close> and \<open>addTodo\<close>), so each
  method is one function of the state at that point and of the way the awaited promise settled.
\<close>

subsection \<open>Strings\<close>

text \<open>
  A JavaScript string is a sequence of UTF-16 code units; a code unit is modelled by its
  number, which is below 65536. \<open>utf16\<close> gives the code units of a literal written with
  characters of the Basic Latin block. Messages of errors and notices stay \<open>string\<close>s.
\<close>

type_synonym jsstring = "nat list"

definition utf16 :: "string \<Rightarrow> jsstring" where
  "utf16 s = map of_char s"

text \<open>
  \<open>String.prototype.trim\<close> strips white space and line terminators from both ends: TAB, VT,
  FF, the byte order mark U+FEFF and the space separators of Unicode (category Zs), and LF,
  CR, U+2028 and U+2029.
\<close>

definition is_whitespace :: "nat \<Rightarrow> bool" where
  "is_whitespace c =
     (c \<in> {0x09, 0x0A, 0x0B, 0x0C, 0x0D, 0x20, 0xA0, 0x1680, 0x2028, 0x2029, 0x202F, 0x205F,
            0x3000, 0xFEFF}
      \<or> (0x2000 \<le> c \<and> c \<le> 0x200A))"

definition trim :: "jsstring \<Rightarrow> jsstring" where
  "trim s = rev (dropWhile is_whitespace (rev (dropWhile is_whitespace s)))"

text \<open>
  \<open>String.prototype.toLowerCase\<close> reads the string as code points, applies the default
  lowercase conversion of Unicode and writes the result as code units again. A surrogate
  pair is one code point; a surrogate without its partner stands for itself.
\<close>

definition is_lead :: "nat \<Rightarrow> bool" where
  "is_lead u = (0xD800 \<le> u \<and> u \<le> 0xDBFF)"

definition is_trail :: "nat \<Rightarrow> bool" where
  "is_trail u = (0xDC00 \<le> u \<and> u \<le> 0xDFFF)"

fun StringToCodePoints :: "jsstring \<Rightarrow> nat list" where
  "StringToCodePoints (a # b # us) =
     (if is_lead a \<and> is_trail b
      then ((a - 0xD800) * 0x400 + (b - 0xDC00) + 0x10000) # StringToCodePoints us
      else a # StringToCodePoints (b # us))"
| "StringToCodePoints us = us"

definition UTF16EncodeCodePoint :: "nat \<Rightarrow> jsstring" where
  "UTF16EncodeCodePoint cp =
     (if cp \<le> 0xFFFF then [cp]
      else [(cp - 0x10000) div 0x400 + 0xD800, (cp - 0x10000) mod 0x400 + 0xDC00])"

definition CodePointsToString :: "nat list \<Rightarrow> jsstring" where
  "CodePointsToString cps = concat (map UTF16EncodeCodePoint cps)"

text \<open>
  The tables are those of the Unicode Character Database, version 14.0. An entry
  \<open>(lo, hi, stride, target)\<close> of the lowercase mapping sends \<open>lo\<close> to \<open>target\<close> and every
  further code point up to \<open>hi\<close> that lies a multiple of \<open>stride\<close> above \<open>lo\<close> to the code
  point as far above \<open>target\<close>. Code points outside the table are their own lowercase.
\<close>

fun lookup_lower :: "nat \<Rightarrow> (nat \<times> nat \<times> nat \<times> nat) list \<Rightarrow> nat" where
  "lookup_lower c [] = c"
| "lookup_lower c ((lo, hi, stride, target) # es) =
     (if lo \<le> c \<and> c \<le> hi \<and> (c - lo) mod stride = 0 then target + (c - lo)
      else lookup_lower c es)"

fun in_ranges :: "nat \<Rightarrow> (nat \<times> nat) list \<Rightarrow> bool" where
  "in_ranges c [] = False"
| "in_ranges c ((lo, hi) # rs) = (lo \<le> c \<and> c \<le> hi \<or> in_ranges c rs)"

text \<open>The simple lowercase mappings of UnicodeData.txt, below U+0100 and from there on.\<close>

definition Lowercase_Mapping_Latin1 :: "(nat \<times> nat \<times> nat \<times> nat) list" where
  "Lowercase_Mapping_Latin1 =
  [(0x41, 0x5A, 1, 0x61), (0xC0, 0xD6, 1, 0xE0), (0xD8, 0xDE, 1, 0xF8)]"

definition Lowercase_Mapping_Beyond :: "(nat \<times> nat \<times> nat \<times> nat) list" where
  "Lowercase_Mapping_Beyond =
  [(0x100, 0x12E, 2, 0x101), (0x130, 0x130, 1, 0x69), (0x132, 0x136, 2, 0x133),
    (0x139, 0x147, 2, 0x13A), (0x14A, 0x176, 2, 0x14B), (0x178, 0x178, 1, 0xFF),
    (0x179, 0x17D, 2, 0x17A), (0x181, 0x181, 1, 0x253), (0x182, 0x184, 2, 0x183),
    (0x186, 0x186, 1, 0x254), (0x187, 0x187, 1, 0x188), (0x189, 0x18A, 1, 0x256),
    (0x18B, 0x18B, 1, 0x18C), (0x18E, 0x18E, 1, 0x1DD), (0x18F, 0x18F, 1, 0x259),
    (0x190, 0x190, 1, 0x25B), (0x191, 0x191, 1, 0x192), (0x193, 0x193, 1, 0x260),
    (0x194, 0x194, 1, 0x263), (0x196, 0x196, 1, 0x269), (0x197, 0x197, 1, 0x268),
    (0x198, 0x198, 1, 0x199), (0x19C, 0x19C, 1, 0x26F), (0x19D, 0x19D, 1, 0x272),
    (0x19F, 0x19F, 1, 0x275), (0x1A0, 0x1A4, 2, 0x1A1), (0x1A6, 0x1A6, 1, 0x280),
    (0x1A7, 0x1A7, 1, 0x1A8), (0x1A9, 0x1A9, 1, 0x283), (0x1AC, 0x1AC, 1, 0x1AD),
    (0x1AE, 0x1AE, 1, 0x288), (0x1AF, 0x1AF, 1, 0x1B0), (0x1B1, 0x1B2, 1, 0x28A),
    (0x1B3, 0x1B5, 2, 0x1B4), (0x1B7, 0x1B7, 1, 0x292), (0x1B8, 0x1B8, 1, 0x1B9),
    (0x1BC, 0x1BC, 1, 0x1BD), (0x1C4, 0x1C4, 1, 0x1C6), (0x1C5, 0x1C5, 1, 0x1C6),
    (0x1C7, 0x1C7, 1, 0x1C9), (0x1C8, 0x1C8, 1, 0x1C9), (0x1CA, 0x1CA, 1, 0x1CC),
    (0x1CB, 0x1DB, 2, 0x1CC), (0x1DE, 0x1EE, 2, 0x1DF), (0x1F1, 0x1F1, 1, 0x1F3),
    (0x1F2, 0x1F4, 2, 0x1F3), (0x1F6, 0x1F6, 1, 0x195), (0x1F7, 0x1F7, 1, 0x1BF),
    (0x1F8, 0x21E, 2, 0x1F9), (0x220, 0x220, 1, 0x19E), (0x222, 0x232, 2, 0x223),
    (0x23A, 0x23A, 1, 0x2C65), (0x23B, 0x23B, 1, 0x23C), (0x23D, 0x23D, 1, 0x19A),
    (0x23E, 0x23E, 1, 0x2C66), (0x241, 0x241, 1, 0x242), (0x243, 0x243, 1, 0x180),
    (0x244, 0x244, 1, 0x289), (0x245, 0x245, 1, 0x28C), (0x246, 0x24E, 2, 0x247),
    (0x370, 0x372, 2, 0x371), (0x376, 0x376, 1, 0x377), (0x37F, 0x37F, 1, 0x3F3),
    (0x386, 0x386, 1, 0x3AC), (0x388, 0x38A, 1, 0x3AD), (0x38C, 0x38C, 1, 0x3CC),
    (0x38E, 0x38F, 1, 0x3CD), (0x391, 0x3A1, 1, 0x3B1), (0x3A3, 0x3AB, 1, 0x3C3),
    (0x3CF, 0x3CF, 1, 0x3D7), (0x3D8, 0x3EE, 2, 0x3D9), (0x3F4, 0x3F4, 1, 0x3B8),
    (0x3F7, 0x3F7, 1, 0x3F8), (0x3F9, 0x3F9, 1, 0x3F2), (0x3FA, 0x3FA, 1, 0x3FB),
    (0x3FD, 0x3FF, 1, 0x37B), (0x400, 0x40F, 1, 0x450), (0x410, 0x42F, 1, 0x430),
    (0x460, 0x480, 2, 0x461), (0x48A, 0x4BE, 2, 0x48B), (0x4C0, 0x4C0, 1, 0x4CF),
    (0x4C1, 0x4CD, 2, 0x4C2), (0x4D0, 0x52E, 2, 0x4D1), (0x531, 0x556, 1, 0x561),
    (0x10A0, 0x10C5, 1, 0x2D00), (0x10C7, 0x10C7, 1, 0x2D27), (0x10CD, 0x10CD, 1, 0x2D2D),
    (0x13A0, 0x13EF, 1, 0xAB70), (0x13F0, 0x13F5, 1, 0x13F8), (0x1C90, 0x1CBA, 1, 0x10D0),
    (0x1CBD, 0x1CBF, 1, 0x10FD), (0x1E00, 0x1E94, 2, 0x1E01), (0x1E9E, 0x1E9E, 1, 0xDF),
    (0x1EA0, 0x1EFE, 2, 0x1EA1), (0x1F08, 0x1F0F, 1, 0x1F00), (0x1F18, 0x1F1D, 1, 0x1F10),
    (0x1F28, 0x1F2F, 1, 0x1F20), (0x1F38, 0x1F3F, 1, 0x1F30), (0x1F48, 0x1F4D, 1, 0x1F40),
    (0x1F59, 0x1F5F, 2, 0x1F51), (0x1F68, 0x1F6F, 1, 0x1F60), (0x1F88, 0x1F8F, 1, 0x1F80),
    (0x1F98, 0x1F9F, 1, 0x1F90), (0x1FA8, 0x1FAF, 1, 0x1FA0), (0x1FB8, 0x1FB9, 1, 0x1FB0),
    (0x1FBA, 0x1FBB, 1, 0x1F70), (0x1FBC, 0x1FBC, 1, 0x1FB3), (0x1FC8, 0x1FCB, 1, 0x1F72),
    (0x1FCC, 0x1FCC, 1, 0x1FC3), (0x1FD8, 0x1FD9, 1, 0x1FD0), (0x1FDA, 0x1FDB, 1, 0x1F76),
    (0x1FE8, 0x1FE9, 1, 0x1FE0), (0x1FEA, 0x1FEB, 1, 0x1F7A), (0x1FEC, 0x1FEC, 1, 0x1FE5),
    (0x1FF8, 0x1FF9, 1, 0x1F78), (0x1FFA, 0x1FFB, 1, 0x1F7C), (0x1FFC, 0x1FFC, 1, 0x1FF3),
    (0x2126, 0x2126, 1, 0x3C9), (0x212A, 0x212A, 1, 0x6B), (0x212B, 0x212B, 1, 0xE5),
    (0x2132, 0x2132, 1, 0x214E), (0x2160, 0x216F, 1, 0x2170), (0x2183, 0x2183, 1, 0x2184),
    (0x24B6, 0x24CF, 1, 0x24D0), (0x2C00, 0x2C2F, 1, 0x2C30), (0x2C60, 0x2C60, 1, 0x2C61),
    (0x2C62, 0x2C62, 1, 0x26B), (0x2C63, 0x2C63, 1, 0x1D7D), (0x2C64, 0x2C64, 1, 0x27D),
    (0x2C67, 0x2C6B, 2, 0x2C68), (0x2C6D, 0x2C6D, 1, 0x251), (0x2C6E, 0x2C6E, 1, 0x271),
    (0x2C6F, 0x2C6F, 1, 0x250), (0x2C70, 0x2C70, 1, 0x252), (0x2C72, 0x2C72, 1, 0x2C73),
    (0x2C75, 0x2C75, 1, 0x2C76), (0x2C7E, 0x2C7F, 1, 0x23F), (0x2C80, 0x2CE2, 2, 0x2C81),
    (0x2CEB, 0x2CED, 2, 0x2CEC), (0x2CF2, 0x2CF2, 1, 0x2CF3), (0xA640, 0xA66C, 2, 0xA641),
    (0xA680, 0xA69A, 2, 0xA681), (0xA722, 0xA72E, 2, 0xA723), (0xA732, 0xA76E, 2, 0xA733),
    (0xA779, 0xA77B, 2, 0xA77A), (0xA77D, 0xA77D, 1, 0x1D79), (0xA77E, 0xA786, 2, 0xA77F),
    (0xA78B, 0xA78B, 1, 0xA78C), (0xA78D, 0xA78D, 1, 0x265), (0xA790, 0xA792, 2, 0xA791),
    (0xA796, 0xA7A8, 2, 0xA797), (0xA7AA, 0xA7AA, 1, 0x266), (0xA7AB, 0xA7AB, 1, 0x25C),
    (0xA7AC, 0xA7AC, 1, 0x261), (0xA7AD, 0xA7AD, 1, 0x26C), (0xA7AE, 0xA7AE, 1, 0x26A),
    (0xA7B0, 0xA7B0, 1, 0x29E), (0xA7B1, 0xA7B1, 1, 0x287), (0xA7B2, 0xA7B2, 1, 0x29D),
    (0xA7B3, 0xA7B3, 1, 0xAB53), (0xA7B4, 0xA7C2, 2, 0xA7B5), (0xA7C4, 0xA7C4, 1, 0xA794),
    (0xA7C5, 0xA7C5, 1, 0x282), (0xA7C6, 0xA7C6, 1, 0x1D8E), (0xA7C7, 0xA7C9, 2, 0xA7C8),
    (0xA7D0, 0xA7D0, 1, 0xA7D1), (0xA7D6, 0xA7D8, 2, 0xA7D7), (0xA7F5, 0xA7F5, 1, 0xA7F6),
    (0xFF21, 0xFF3A, 1, 0xFF41), (0x10400, 0x10427, 1, 0x10428),
    (0x104B0, 0x104D3, 1, 0x104D8), (0x10570, 0x1057A, 1, 0x10597),
    (0x1057C, 0x1058A, 1, 0x105A3), (0x1058C, 0x10592, 1, 0x105B3),
    (0x10594, 0x10595, 1, 0x105BB), (0x10C80, 0x10CB2, 1, 0x10CC0),
    (0x118A0, 0x118BF, 1, 0x118C0), (0x16E40, 0x16E5F, 1, 0x16E60),
    (0x1E900, 0x1E921, 1, 0x1E922)]"

definition simple_lowercase :: "nat \<Rightarrow> nat" where
  "simple_lowercase c = lookup_lower c (Lowercase_Mapping_Latin1 @ Lowercase_Mapping_Beyond)"

text \<open>The ranges of the derived properties Cased and Case_Ignorable.\<close>

definition Cased_ranges :: "(nat \<times> nat) list" where
  "Cased_ranges =
  [(0x41, 0x5A), (0x61, 0x7A), (0xAA, 0xAA), (0xB5, 0xB5), (0xBA, 0xBA), (0xC0, 0xD6),
    (0xD8, 0xF6), (0xF8, 0x1BA), (0x1BC, 0x1BF), (0x1C4, 0x293), (0x295, 0x2B8),
    (0x2C0, 0x2C1), (0x2E0, 0x2E4), (0x345, 0x345), (0x370, 0x373), (0x376, 0x377),
    (0x37A, 0x37D), (0x37F, 0x37F), (0x386, 0x386), (0x388, 0x38A), (0x38C, 0x38C),
    (0x38E, 0x3A1), (0x3A3, 0x3F5), (0x3F7, 0x481), (0x48A, 0x52F), (0x531, 0x556),
    (0x560, 0x588), (0x10A0, 0x10C5), (0x10C7, 0x10C7), (0x10CD, 0x10CD), (0x10D0, 0x10FA),
    (0x10FD, 0x10FF), (0x13A0, 0x13F5), (0x13F8, 0x13FD), (0x1C80, 0x1C88), (0x1C90, 0x1CBA),
    (0x1CBD, 0x1CBF), (0x1D00, 0x1DBF), (0x1E00, 0x1F15), (0x1F18, 0x1F1D), (0x1F20, 0x1F45),
    (0x1F48, 0x1F4D), (0x1F50, 0x1F57), (0x1F59, 0x1F59), (0x1F5B, 0x1F5B), (0x1F5D, 0x1F5D),
    (0x1F5F, 0x1F7D), (0x1F80, 0x1FB4), (0x1FB6, 0x1FBC), (0x1FBE, 0x1FBE), (0x1FC2, 0x1FC4),
    (0x1FC6, 0x1FCC), (0x1FD0, 0x1FD3), (0x1FD6, 0x1FDB), (0x1FE0, 0x1FEC), (0x1FF2, 0x1FF4),
    (0x1FF6, 0x1FFC), (0x2071, 0x2071), (0x207F, 0x207F), (0x2090, 0x209C), (0x2102, 0x2102),
    (0x2107, 0x2107), (0x210A, 0x2113), (0x2115, 0x2115), (0x2119, 0x211D), (0x2124, 0x2124),
    (0x2126, 0x2126), (0x2128, 0x2128), (0x212A, 0x212D), (0x212F, 0x2134), (0x2139, 0x2139),
    (0x213C, 0x213F), (0x2145, 0x2149), (0x214E, 0x214E), (0x2160, 0x217F), (0x2183, 0x2184),
    (0x24B6, 0x24E9), (0x2C00, 0x2CE4), (0x2CEB, 0x2CEE), (0x2CF2, 0x2CF3), (0x2D00, 0x2D25),
    (0x2D27, 0x2D27), (0x2D2D, 0x2D2D), (0xA640, 0xA66D), (0xA680, 0xA69D), (0xA722, 0xA787),
    (0xA78B, 0xA78E), (0xA790, 0xA7CA), (0xA7D0, 0xA7D1), (0xA7D3, 0xA7D3), (0xA7D5, 0xA7D9),
    (0xA7F5, 0xA7F6), (0xA7F8, 0xA7FA), (0xAB30, 0xAB5A), (0xAB5C, 0xAB68), (0xAB70, 0xABBF),
    (0xFB00, 0xFB06), (0xFB13, 0xFB17), (0xFF21, 0xFF3A), (0xFF41, 0xFF5A),
    (0x10400, 0x1044F), (0x104B0, 0x104D3), (0x104D8, 0x104FB), (0x10570, 0x1057A),
    (0x1057C, 0x1058A), (0x1058C, 0x10592), (0x10594, 0x10595), (0x10597, 0x105A1),
    (0x105A3, 0x105B1), (0x105B3, 0x105B9), (0x105BB, 0x105BC), (0x10780, 0x10780),
    (0x10783, 0x10785), (0x10787, 0x107B0), (0x107B2, 0x107BA), (0x10C80, 0x10CB2),
    (0x10CC0, 0x10CF2), (0x118A0, 0x118DF), (0x16E40, 0x16E7F), (0x1D400, 0x1D454),
    (0x1D456, 0x1D49C), (0x1D49E, 0x1D49F), (0x1D4A2, 0x1D4A2), (0x1D4A5, 0x1D4A6),
    (0x1D4A9, 0x1D4AC), (0x1D4AE, 0x1D4B9), (0x1D4BB, 0x1D4BB), (0x1D4BD, 0x1D4C3),
    (0x1D4C5, 0x1D505), (0x1D507, 0x1D50A), (0x1D50D, 0x1D514), (0x1D516, 0x1D51C),
    (0x1D51E, 0x1D539), (0x1D53B, 0x1D53E), (0x1D540, 0x1D544), (0x1D546, 0x1D546),
    (0x1D54A, 0x1D550), (0x1D552, 0x1D6A5), (0x1D6A8, 0x1D6C0), (0x1D6C2, 0x1D6DA),
    (0x1D6DC, 0x1D6FA), (0x1D6FC, 0x1D714), (0x1D716, 0x1D734), (0x1D736, 0x1D74E),
    (0x1D750, 0x1D76E), (0x1D770, 0x1D788), (0x1D78A, 0x1D7A8), (0x1D7AA, 0x1D7C2),
    (0x1D7C4, 0x1D7CB), (0x1DF00, 0x1DF09), (0x1DF0B, 0x1DF1E), (0x1E900, 0x1E943),
    (0x1F130, 0x1F149), (0x1F150, 0x1F169), (0x1F170, 0x1F189)]"

definition Case_Ignorable_ranges :: "(nat \<times> nat) list" where
  "Case_Ignorable_ranges =
  [(0x27, 0x27), (0x2E, 0x2E), (0x3A, 0x3A), (0x5E, 0x5E), (0x60, 0x60), (0xA8, 0xA8),
    (0xAD, 0xAD), (0xAF, 0xAF), (0xB4, 0xB4), (0xB7, 0xB8), (0x2B0, 0x36F), (0x374, 0x375),
    (0x37A, 0x37A), (0x384, 0x385), (0x387, 0x387), (0x483, 0x489), (0x559, 0x559),
    (0x55F, 0x55F), (0x591, 0x5BD), (0x5BF, 0x5BF), (0x5C1, 0x5C2), (0x5C4, 0x5C5),
    (0x5C7, 0x5C7), (0x5F4, 0x5F4), (0x600, 0x605), (0x610, 0x61A), (0x61C, 0x61C),
    (0x640, 0x640), (0x64B, 0x65F), (0x670, 0x670), (0x6D6, 0x6DD), (0x6DF, 0x6E8),
    (0x6EA, 0x6ED), (0x70F, 0x70F), (0x711, 0x711), (0x730, 0x74A), (0x7A6, 0x7B0),
    (0x7EB, 0x7F5), (0x7FA, 0x7FA), (0x7FD, 0x7FD), (0x816, 0x82D), (0x859, 0x85B),
    (0x888, 0x888), (0x890, 0x891), (0x898, 0x89F), (0x8C9, 0x902), (0x93A, 0x93A),
    (0x93C, 0x93C), (0x941, 0x948), (0x94D, 0x94D), (0x951, 0x957), (0x962, 0x963),
    (0x971, 0x971), (0x981, 0x981), (0x9BC, 0x9BC), (0x9C1, 0x9C4), (0x9CD, 0x9CD),
    (0x9E2, 0x9E3), (0x9FE, 0x9FE), (0xA01, 0xA02), (0xA3C, 0xA3C), (0xA41, 0xA42),
    (0xA47, 0xA48), (0xA4B, 0xA4D), (0xA51, 0xA51), (0xA70, 0xA71), (0xA75, 0xA75),
    (0xA81, 0xA82), (0xABC, 0xABC), (0xAC1, 0xAC5), (0xAC7, 0xAC8), (0xACD, 0xACD),
    (0xAE2, 0xAE3), (0xAFA, 0xAFF), (0xB01, 0xB01), (0xB3C, 0xB3C), (0xB3F, 0xB3F),
    (0xB41, 0xB44), (0xB4D, 0xB4D), (0xB55, 0xB56), (0xB62, 0xB63), (0xB82, 0xB82),
    (0xBC0, 0xBC0), (0xBCD, 0xBCD), (0xC00, 0xC00), (0xC04, 0xC04), (0xC3C, 0xC3C),
    (0xC3E, 0xC40), (0xC46, 0xC48), (0xC4A, 0xC4D), (0xC55, 0xC56), (0xC62, 0xC63),
    (0xC81, 0xC81), (0xCBC, 0xCBC), (0xCBF, 0xCBF), (0xCC6, 0xCC6), (0xCCC, 0xCCD),
    (0xCE2, 0xCE3), (0xD00, 0xD01), (0xD3B, 0xD3C), (0xD41, 0xD44), (0xD4D, 0xD4D),
    (0xD62, 0xD63), (0xD81, 0xD81), (0xDCA, 0xDCA), (0xDD2, 0xDD4), (0xDD6, 0xDD6),
    (0xE31, 0xE31), (0xE34, 0xE3A), (0xE46, 0xE4E), (0xEB1, 0xEB1), (0xEB4, 0xEBC),
    (0xEC6, 0xEC6), (0xEC8, 0xECD), (0xF18, 0xF19), (0xF35, 0xF35), (0xF37, 0xF37),
    (0xF39, 0xF39), (0xF71, 0xF7E), (0xF80, 0xF84), (0xF86, 0xF87), (0xF8D, 0xF97),
    (0xF99, 0xFBC), (0xFC6, 0xFC6), (0x102D, 0x1030), (0x1032, 0x1037), (0x1039, 0x103A),
    (0x103D, 0x103E), (0x1058, 0x1059), (0x105E, 0x1060), (0x1071, 0x1074), (0x1082, 0x1082),
    (0x1085, 0x1086), (0x108D, 0x108D), (0x109D, 0x109D), (0x10FC, 0x10FC), (0x135D, 0x135F),
    (0x1712, 0x1714), (0x1732, 0x1733), (0x1752, 0x1753), (0x1772, 0x1773), (0x17B4, 0x17B5),
    (0x17B7, 0x17BD), (0x17C6, 0x17C6), (0x17C9, 0x17D3), (0x17D7, 0x17D7), (0x17DD, 0x17DD),
    (0x180B, 0x180F), (0x1843, 0x1843), (0x1885, 0x1886), (0x18A9, 0x18A9), (0x1920, 0x1922),
    (0x1927, 0x1928), (0x1932, 0x1932), (0x1939, 0x193B), (0x1A17, 0x1A18), (0x1A1B, 0x1A1B),
    (0x1A56, 0x1A56), (0x1A58, 0x1A5E), (0x1A60, 0x1A60), (0x1A62, 0x1A62), (0x1A65, 0x1A6C),
    (0x1A73, 0x1A7C), (0x1A7F, 0x1A7F), (0x1AA7, 0x1AA7), (0x1AB0, 0x1ACE), (0x1B00, 0x1B03),
    (0x1B34, 0x1B34), (0x1B36, 0x1B3A), (0x1B3C, 0x1B3C), (0x1B42, 0x1B42), (0x1B6B, 0x1B73),
    (0x1B80, 0x1B81), (0x1BA2, 0x1BA5), (0x1BA8, 0x1BA9), (0x1BAB, 0x1BAD), (0x1BE6, 0x1BE6),
    (0x1BE8, 0x1BE9), (0x1BED, 0x1BED), (0x1BEF, 0x1BF1), (0x1C2C, 0x1C33), (0x1C36, 0x1C37),
    (0x1C78, 0x1C7D), (0x1CD0, 0x1CD2), (0x1CD4, 0x1CE0), (0x1CE2, 0x1CE8), (0x1CED, 0x1CED),
    (0x1CF4, 0x1CF4), (0x1CF8, 0x1CF9), (0x1D2C, 0x1D6A), (0x1D78, 0x1D78), (0x1D9B, 0x1DFF),
    (0x1FBD, 0x1FBD), (0x1FBF, 0x1FC1), (0x1FCD, 0x1FCF), (0x1FDD, 0x1FDF), (0x1FED, 0x1FEF),
    (0x1FFD, 0x1FFE), (0x200B, 0x200F), (0x2018, 0x2019), (0x2024, 0x2024), (0x2027, 0x2027),
    (0x202A, 0x202E), (0x2060, 0x2064), (0x2066, 0x206F), (0x2071, 0x2071), (0x207F, 0x207F),
    (0x2090, 0x209C), (0x20D0, 0x20F0), (0x2C7C, 0x2C7D), (0x2CEF, 0x2CF1), (0x2D6F, 0x2D6F),
    (0x2D7F, 0x2D7F), (0x2DE0, 0x2DFF), (0x2E2F, 0x2E2F), (0x3005, 0x3005), (0x302A, 0x302D),
    (0x3031, 0x3035), (0x303B, 0x303B), (0x3099, 0x309E), (0x30FC, 0x30FE), (0xA015, 0xA015),
    (0xA4F8, 0xA4FD), (0xA60C, 0xA60C), (0xA66F, 0xA672), (0xA674, 0xA67D), (0xA67F, 0xA67F),
    (0xA69C, 0xA69F), (0xA6F0, 0xA6F1), (0xA700, 0xA721), (0xA770, 0xA770), (0xA788, 0xA78A),
    (0xA7F2, 0xA7F4), (0xA7F8, 0xA7F9), (0xA802, 0xA802), (0xA806, 0xA806), (0xA80B, 0xA80B),
    (0xA825, 0xA826), (0xA82C, 0xA82C), (0xA8C4, 0xA8C5), (0xA8E0, 0xA8F1), (0xA8FF, 0xA8FF),
    (0xA926, 0xA92D), (0xA947, 0xA951), (0xA980, 0xA982), (0xA9B3, 0xA9B3), (0xA9B6, 0xA9B9),
    (0xA9BC, 0xA9BD), (0xA9CF, 0xA9CF), (0xA9E5, 0xA9E6), (0xAA29, 0xAA2E), (0xAA31, 0xAA32),
    (0xAA35, 0xAA36), (0xAA43, 0xAA43), (0xAA4C, 0xAA4C), (0xAA70, 0xAA70), (0xAA7C, 0xAA7C),
    (0xAAB0, 0xAAB0), (0xAAB2, 0xAAB4), (0xAAB7, 0xAAB8), (0xAABE, 0xAABF), (0xAAC1, 0xAAC1),
    (0xAADD, 0xAADD), (0xAAEC, 0xAAED), (0xAAF3, 0xAAF4), (0xAAF6, 0xAAF6), (0xAB5B, 0xAB5F),
    (0xAB69, 0xAB6B), (0xABE5, 0xABE5), (0xABE8, 0xABE8), (0xABED, 0xABED), (0xFB1E, 0xFB1E),
    (0xFBB2, 0xFBC2), (0xFE00, 0xFE0F), (0xFE13, 0xFE13), (0xFE20, 0xFE2F), (0xFE52, 0xFE52),
    (0xFE55, 0xFE55), (0xFEFF, 0xFEFF), (0xFF07, 0xFF07), (0xFF0E, 0xFF0E), (0xFF1A, 0xFF1A),
    (0xFF3E, 0xFF3E), (0xFF40, 0xFF40), (0xFF70, 0xFF70), (0xFF9E, 0xFF9F), (0xFFE3, 0xFFE3),
    (0xFFF9, 0xFFFB), (0x101FD, 0x101FD), (0x102E0, 0x102E0), (0x10376, 0x1037A),
    (0x10780, 0x10785), (0x10787, 0x107B0), (0x107B2, 0x107BA), (0x10A01, 0x10A03),
    (0x10A05, 0x10A06), (0x10A0C, 0x10A0F), (0x10A38, 0x10A3A), (0x10A3F, 0x10A3F),
    (0x10AE5, 0x10AE6), (0x10D24, 0x10D27), (0x10EAB, 0x10EAC), (0x10F46, 0x10F50),
    (0x10F82, 0x10F85), (0x11001, 0x11001), (0x11038, 0x11046), (0x11070, 0x11070),
    (0x11073, 0x11074), (0x1107F, 0x11081), (0x110B3, 0x110B6), (0x110B9, 0x110BA),
    (0x110BD, 0x110BD), (0x110C2, 0x110C2), (0x110CD, 0x110CD), (0x11100, 0x11102),
    (0x11127, 0x1112B), (0x1112D, 0x11134), (0x11173, 0x11173), (0x11180, 0x11181),
    (0x111B6, 0x111BE), (0x111C9, 0x111CC), (0x111CF, 0x111CF), (0x1122F, 0x11231),
    (0x11234, 0x11234), (0x11236, 0x11237), (0x1123E, 0x1123E), (0x112DF, 0x112DF),
    (0x112E3, 0x112EA), (0x11300, 0x11301), (0x1133B, 0x1133C), (0x11340, 0x11340),
    (0x11366, 0x1136C), (0x11370, 0x11374), (0x11438, 0x1143F), (0x11442, 0x11444),
    (0x11446, 0x11446), (0x1145E, 0x1145E), (0x114B3, 0x114B8), (0x114BA, 0x114BA),
    (0x114BF, 0x114C0), (0x114C2, 0x114C3), (0x115B2, 0x115B5), (0x115BC, 0x115BD),
    (0x115BF, 0x115C0), (0x115DC, 0x115DD), (0x11633, 0x1163A), (0x1163D, 0x1163D),
    (0x1163F, 0x11640), (0x116AB, 0x116AB), (0x116AD, 0x116AD), (0x116B0, 0x116B5),
    (0x116B7, 0x116B7), (0x1171D, 0x1171F), (0x11722, 0x11725), (0x11727, 0x1172B),
    (0x1182F, 0x11837), (0x11839, 0x1183A), (0x1193B, 0x1193C), (0x1193E, 0x1193E),
    (0x11943, 0x11943), (0x119D4, 0x119D7), (0x119DA, 0x119DB), (0x119E0, 0x119E0),
    (0x11A01, 0x11A0A), (0x11A33, 0x11A38), (0x11A3B, 0x11A3E), (0x11A47, 0x11A47),
    (0x11A51, 0x11A56), (0x11A59, 0x11A5B), (0x11A8A, 0x11A96), (0x11A98, 0x11A99),
    (0x11C30, 0x11C36), (0x11C38, 0x11C3D), (0x11C3F, 0x11C3F), (0x11C92, 0x11CA7),
    (0x11CAA, 0x11CB0), (0x11CB2, 0x11CB3), (0x11CB5, 0x11CB6), (0x11D31, 0x11D36),
    (0x11D3A, 0x11D3A), (0x11D3C, 0x11D3D), (0x11D3F, 0x11D45), (0x11D47, 0x11D47),
    (0x11D90, 0x11D91), (0x11D95, 0x11D95), (0x11D97, 0x11D97), (0x11EF3, 0x11EF4),
    (0x13430, 0x13438), (0x16AF0, 0x16AF4), (0x16B30, 0x16B36), (0x16B40, 0x16B43),
    (0x16F4F, 0x16F4F), (0x16F8F, 0x16F9F), (0x16FE0, 0x16FE1), (0x16FE3, 0x16FE4),
    (0x1AFF0, 0x1AFF3), (0x1AFF5, 0x1AFFB), (0x1AFFD, 0x1AFFE), (0x1BC9D, 0x1BC9E),
    (0x1BCA0, 0x1BCA3), (0x1CF00, 0x1CF2D), (0x1CF30, 0x1CF46), (0x1D167, 0x1D169),
    (0x1D173, 0x1D182), (0x1D185, 0x1D18B), (0x1D1AA, 0x1D1AD), (0x1D242, 0x1D244),
    (0x1DA00, 0x1DA36), (0x1DA3B, 0x1DA6C), (0x1DA75, 0x1DA75), (0x1DA84, 0x1DA84),
    (0x1DA9B, 0x1DA9F), (0x1DAA1, 0x1DAAF), (0x1E000, 0x1E006), (0x1E008, 0x1E018),
    (0x1E01B, 0x1E021), (0x1E023, 0x1E024), (0x1E026, 0x1E02A), (0x1E130, 0x1E13D),
    (0x1E2AE, 0x1E2AE), (0x1E2EC, 0x1E2EF), (0x1E8D0, 0x1E8D6), (0x1E944, 0x1E94B),
    (0x1F3FB, 0x1F3FF), (0xE0001, 0xE0001), (0xE0020, 0xE007F), (0xE0100, 0xE01EF)]"

definition Cased :: "nat \<Rightarrow> bool" where
  "Cased c = in_ranges c Cased_ranges"

definition Case_Ignorable :: "nat \<Rightarrow> bool" where
  "Case_Ignorable c = in_ranges c Case_Ignorable_ranges"

text \<open>
  Going away from a code point, the first one that is not case-ignorable is there and is
  cased. A code point that is both cased and case-ignorable is passed over like every
  case-ignorable one, which is how the implementations of the conversion read the condition.
\<close>

definition cased_next :: "nat list \<Rightarrow> bool" where
  "cased_next cps = (case dropWhile Case_Ignorable cps of [] \<Rightarrow> False | c # _ \<Rightarrow> Cased c)"

text \<open>
  The condition Final_Sigma of SpecialCasing.txt, the only one that does not depend on a
  language: a cased letter comes before, after it no cased letter comes. \<open>before\<close> holds
  the code points to the left, the nearest first.
\<close>

definition Final_Sigma :: "nat list \<Rightarrow> nat list \<Rightarrow> bool" where
  "Final_Sigma before after = (cased_next before \<and> \<not> cased_next after)"

text \<open>
  The conversion: the capital sigma U+03A3 becomes the final sigma U+03C2 under Final_Sigma
  and the small sigma U+03C3 otherwise; U+0130 becomes U+0069 U+0307, the one lowercase
  mapping of SpecialCasing.txt without a condition; every other code point takes its simple
  mapping.
\<close>

fun toLowercase :: "nat list \<Rightarrow> nat list \<Rightarrow> nat list" where
  "toLowercase before [] = []"
| "toLowercase before (c # cs) =
     (if c = 0x3A3 then [if Final_Sigma before cs then 0x3C2 else 0x3C3]
      else if c = 0x130 then [0x69, 0x307]
      else [simple_lowercase c]) @ toLowercase (c # before) cs"

definition toLowerCase :: "jsstring \<Rightarrow> jsstring" where
  "toLowerCase s = CodePointsToString (toLowercase [] (StringToCodePoints s))"

text \<open>\<open>hay.includes(needle)\<close>: the needle starts at some position of the hay.\<close>

fun includes_str :: "jsstring \<Rightarrow> jsstring \<Rightarrow> bool" where
  "includes_str [] needle = (needle = [])"
| "includes_str (c # cs) needle = (prefix needle (c # cs) \<or> includes_str cs needle)"

text \<open>
  The relational operators on two strings compare code units from the left; a proper prefix
  is smaller. \<open>a >= b\<close> is evaluated as the negation of \<open>a < b\<close>, and \<open>a <= b\<close> as the
  negation of \<open>b < a\<close>.
\<close>

fun str_lt :: "jsstring \<Rightarrow> jsstring \<Rightarrow> bool" where
  "str_lt [] [] = False"
| "str_lt [] (y # ys) = True"
| "str_lt (x # xs) [] = False"
| "str_lt (x # xs) (y # ys) =
     (if x < y then True
      else if y < x then False
      else str_lt xs ys)"

definition str_ge :: "jsstring \<Rightarrow> jsstring \<Rightarrow> bool" where
  "str_ge a b = (\<not> str_lt a b)"

definition str_le :: "jsstring \<Rightarrow> jsstring \<Rightarrow> bool" where
  "str_le a b = (\<not> str_lt b a)"

text \<open>\<open>Array.prototype.findIndex\<close>; \<open>None\<close> stands for the result -1.\<close>

fun findIndex :: "('a \<Rightarrow> bool) \<Rightarrow> 'a list \<Rightarrow> nat option" where
  "findIndex p [] = None"
| "findIndex p (x # xs) =
     (if p x then Some 0 else (case findIndex p xs of None \<Rightarrow> None | Some i \<Rightarrow> Some (Suc i)))"

subsection \<open>Data\<close>

text \<open>The objects held in \<open>this.todos\<close>. The field \<open>id\<close> is called \<open>id_todo\<close> here.\<close>

record todo =
  id_todo :: int
  title :: jsstring
  completed :: bool
  userId :: int
  createdAt :: jsstring

text \<open>An item of the list that \<open>GET /todos\<close> returns.\<close>

record remote_todo =
  remote_id :: int
  remote_todo :: jsstring
  remote_completed :: bool
  remote_userId :: int

text \<open>The body that \<open>addTodo\<close> posts, and the object the service answers with.\<close>

record add_body =
  body_todo :: jsstring
  body_completed :: bool
  body_userId :: int

record add_response =
  response_id :: "int option"
  response_todo :: "jsstring option"
  response_completed :: bool
  response_userId :: int

text \<open>How an awaited promise settles: rejected with an error message, or resolved.\<close>

datatype 'a settled = Rejected string | Resolved 'a

datatype request =
    GET_todos
  | POST_add add_body
  | PUT_todo int bool
  | DELETE_todo int

datatype failure = ValidationError | RemoteError string

text \<open>
  What a method reports: nothing, \<open>showError\<close>, \<open>showSuccess\<close>, or \<open>console.warn\<close>.
\<close>

datatype notice = Silent | ErrorShown failure | SuccessShown string | Warned string

text \<open>
  The state: the fields of the object, the values of the three filter inputs of the page,
  and the requests handed to \<open>axios\<close> so far.
\<close>

record app =
  todos :: "todo list"
  filteredTodos :: "todo list"
  currentPage :: int
  searchInput :: jsstring
  fromDate :: jsstring
  toDate :: jsstring
  sent :: "request list"

definition todosPerPage :: nat where
  "todosPerPage = 10"

text \<open>The constructor, on a page whose filter inputs hold the given values.\<close>

definition TodoApp :: "jsstring \<Rightarrow> jsstring \<Rightarrow> jsstring \<Rightarrow> app" where
  "TodoApp s f t =
     \<lparr>todos = [], filteredTodos = [], currentPage = 1,
      searchInput = s, fromDate = f, toDate = t, sent = []\<rparr>"

subsection \<open>Filtering\<close>

definition matchesSearch :: "jsstring \<Rightarrow> todo \<Rightarrow> bool" where
  "matchesSearch searchTerm t = (searchTerm = [] \<or> includes_str (toLowerCase (title t)) searchTerm)"

definition matchesFromDate :: "jsstring \<Rightarrow> todo \<Rightarrow> bool" where
  "matchesFromDate fromD t = (fromD = [] \<or> str_ge (createdAt t) fromD)"

definition matchesToDate :: "jsstring \<Rightarrow> todo \<Rightarrow> bool" where
  "matchesToDate toD t = (toD = [] \<or> str_le (createdAt t) toD)"

definition applyFilters :: "app \<Rightarrow> app" where
  "applyFilters st =
     (let searchTerm = toLowerCase (searchInput st)
      in st\<lparr>filteredTodos :=
               filter (\<lambda>t. matchesSearch searchTerm t \<and> matchesFromDate (fromDate st) t
                            \<and> matchesToDate (toDate st) t) (todos st),
             currentPage := 1\<rparr>)"

definition clearFilters :: "app \<Rightarrow> app" where
  "clearFilters st = applyFilters (st\<lparr>searchInput := [], fromDate := [], toDate := []\<rparr>)"

subsection \<open>Pagination\<close>

text \<open>
  \<open>Math.ceil(this.filteredTodos.length / this.todosPerPage)\<close>, as \<open>renderPagination\<close> and
  \<open>goToPage\<close> both compute it. The quotient of two array lengths is rounded by less than
  the distance to the next integer, so the ceiling of the exact quotient is what is returned.
\<close>

definition totalPages :: "app \<Rightarrow> nat" where
  "totalPages st = nat \<lceil>real (length (filteredTodos st)) / real todosPerPage\<rceil>"

definition goToPage :: "int \<Rightarrow> app \<Rightarrow> app" where
  "goToPage page st =
     (if page < 1 \<or> page > int (totalPages st) then st else st\<lparr>currentPage := page\<rparr>)"

subsection \<open>The store\<close>

text \<open>
  Every method returns what it reports together with the new state; none lets an exception
  escape, each body being one \<open>try\<close> with a \<open>catch\<close> that reports.

  \<open>loadTodos\<close>: \<open>gen i\<close> is the date that \<open>generateRandomDate\<close> returns for the item at
  index \<open>i\<close>.
\<close>

definition loadTodos :: "remote_todo list settled \<Rightarrow> (nat \<Rightarrow> jsstring) \<Rightarrow> app \<Rightarrow> notice \<times> app" where
  "loadTodos outcome gen st =
     (let st1 = st\<lparr>sent := sent st @ [GET_todos]\<rparr>
      in case outcome of
           Rejected msg \<Rightarrow> (ErrorShown (RemoteError msg), st1)
         | Resolved rs \<Rightarrow>
             (Silent,
              applyFilters (st1\<lparr>todos :=
                 map (\<lambda>(i, r). \<lparr>id_todo = remote_id r, title = remote_todo r,
                                 completed = remote_completed r, userId = remote_userId r,
                                 createdAt = gen i\<rparr>) (enumerate 0 rs)\<rparr>)))"

text \<open>
  \<open>addTodo\<close>: \<open>input\<close> is the value of the title field, \<open>uid\<close> the parsed user id, \<open>today\<close>
  the current date. \<open>a || b\<close> takes \<open>b\<close> when \<open>a\<close> is missing, zero or the empty string.
  The length in the made-up id is read after the \<open>await\<close>, from the collection the new todo
  is put in front of. Resetting the add form leaves the three filter inputs as they are.
\<close>

definition addTodo :: "jsstring \<Rightarrow> int \<Rightarrow> jsstring \<Rightarrow> add_response settled \<Rightarrow> app \<Rightarrow> notice \<times> app" where
  "addTodo input uid today outcome st =
     (let title' = trim input
      in if title' = [] then (ErrorShown ValidationError, st)
         else
           let newTodo = \<lparr>body_todo = title', body_completed = False, body_userId = uid\<rparr>;
               st1 = st\<lparr>sent := sent st @ [POST_add newTodo]\<rparr>
           in case outcome of
                Rejected msg \<Rightarrow> (ErrorShown (RemoteError msg), st1)
              | Resolved response \<Rightarrow>
                  let addedTodo =
                        \<lparr>id_todo = (case response_id response of
                                       None \<Rightarrow> int (length (todos st1)) + 1
                                     | Some i \<Rightarrow> if i = 0 then int (length (todos st1)) + 1 else i),
                         title = (case response_todo response of
                                    None \<Rightarrow> title'
                                  | Some s \<Rightarrow> if s = [] then title' else s),
                         completed = response_completed response,
                         userId = response_userId response,
                         createdAt = today\<rparr>
                  in (SuccessShown ''Todo added successfully!'',
                      applyFilters (st1\<lparr>todos := addedTodo # todos st1\<rparr>)))"

definition toggleTodo :: "int \<Rightarrow> unit settled \<Rightarrow> app \<Rightarrow> notice \<times> app" where
  "toggleTodo todoId outcome st =
     (case findIndex (\<lambda>t. id_todo t = todoId) (todos st) of
        None \<Rightarrow> (Silent, st)
      | Some todoIndex \<Rightarrow>
          let t = todos st ! todoIndex;
              updatedTodo = t\<lparr>completed := \<not> completed t\<rparr>;
              st1 = applyFilters (st\<lparr>todos := (todos st)[todoIndex := updatedTodo]\<rparr>);
              st2 = st1\<lparr>sent := sent st1 @ [PUT_todo todoId (completed updatedTodo)]\<rparr>
          in case outcome of
               Rejected msg \<Rightarrow> (Warned msg, st2)
             | Resolved _ \<Rightarrow>
                 (SuccessShown (if completed updatedTodo then ''Todo completed!''
                                else ''Todo marked as pending!''), st2))"

text \<open>\<open>deleteTodo\<close>: \<open>confirmed\<close> is the answer to the \<open>confirm\<close> dialogue.\<close>

definition deleteTodo :: "int \<Rightarrow> bool \<Rightarrow> unit settled \<Rightarrow> app \<Rightarrow> notice \<times> app" where
  "deleteTodo todoId confirmed outcome st =
     (if \<not> confirmed then (Silent, st)
      else
        let st1 = applyFilters (st\<lparr>todos := filter (\<lambda>t. id_todo t \<noteq> todoId) (todos st)\<rparr>);
            st2 = st1\<lparr>sent := sent st1 @ [DELETE_todo todoId]\<rparr>
        in case outcome of
             Rejected msg \<Rightarrow> (Warned msg, st2)
           | Resolved _ \<Rightarrow> (SuccessShown ''Todo deleted successfully!'', st2))"

subsection \<open>Events and reachable states\<close>

text \<open>
  What \<open>bindEvents\<close> and the rendered handlers can trigger. A change of a filter input
  stores the new value in the page and calls \<open>applyFilters\<close>. The \<open>loadTodos\<close> that the
  constructor starts through \<open>init\<close>, like the one behind the refresh button, takes effect
  when its request settles: that is a \<open>Load\<close> event.
\<close>

datatype event =
    Load "remote_todo list settled" "nat \<Rightarrow> jsstring"
  | Add jsstring int jsstring "add_response settled"
  | Toggle int "unit settled"
  | Delete int bool "unit settled"
  | SearchChanged jsstring
  | FromDateChanged jsstring
  | ToDateChanged jsstring
  | ClearClicked
  | PageClicked int

fun handle :: "event \<Rightarrow> app \<Rightarrow> app" where
  "handle (Load outcome gen) st = snd (loadTodos outcome gen st)"
| "handle (Add input uid today outcome) st = snd (addTodo input uid today outcome st)"
| "handle (Toggle todoId outcome) st = snd (toggleTodo todoId outcome st)"
| "handle (Delete todoId confirmed outcome) st = snd (deleteTodo todoId confirmed outcome st)"
| "handle (SearchChanged s) st = applyFilters (st\<lparr>searchInput := s\<rparr>)"
| "handle (FromDateChanged d) st = applyFilters (st\<lparr>fromDate := d\<rparr>)"
| "handle (ToDateChanged d) st = applyFilters (st\<lparr>toDate := d\<rparr>)"
| "handle ClearClicked st = clearFilters st"
| "handle (PageClicked page) st = goToPage page st"

inductive reachable :: "app \<Rightarrow> bool" where
  constructed: "reachable (TodoApp s f t)"
| handled: "reachable st \<Longrightarrow> reachable (handle e st)"

subsection \<open>The specification's notions\<close>









text \<open>The page count of the specification: the ceiling, but never less than 1.\<close>

definition pageCount_spec :: "app \<Rightarrow> int" where
  "pageCount_spec st = max 1 \<lceil>real (length (filteredTodos st)) / real todosPerPage\<rceil>"

text \<open>The invariant of the specification on the current page.\<close>

definition page_in_range :: "app \<Rightarrow> bool" where
  "page_in_range st = (1 \<le> currentPage st \<and> currentPage st \<le> pageCount_spec st)"

text \<open>
  The service's answer to \<open>POST /todos/add\<close> as the specification describes it: the posted
  fields come back, with an id that may be missing.
\<close>

definition echoes :: "add_body \<Rightarrow> add_response \<Rightarrow> bool" where
  "echoes body response =
     (response_todo response = Some (body_todo body)
      \<and> response_completed response = body_completed body
      \<and> response_userId response = body_userId body)"

subsection \<open>Example values\<close>

definition blank_input :: jsstring where
  "blank_input = utf16 ''   ''"

definition typed_input :: jsstring where
  "typed_input = utf16 ''  Buy milk ''"

definition buy_milk :: jsstring where
  "buy_milk = utf16 ''Buy milk''"

definition may_first :: jsstring where
  "may_first = utf16 ''2024-05-01''"

definition march_first :: jsstring where
  "march_first = utf16 ''2024-03-01''"

definition milk :: todo where
  "milk = \<lparr>id_todo = 1, title = utf16 ''Buy Milk'', completed = False, userId = 1,
           createdAt = utf16 ''2024-01-15''\<rparr>"

definition eggs :: todo where
  "eggs = \<lparr>id_todo = 2, title = utf16 ''Boil eggs'', completed = True, userId = 1,
           createdAt = utf16 ''2024-02-01''\<rparr>"

definition cow :: todo where
  "cow = \<lparr>id_todo = 3, title = utf16 ''MILK the cow'', completed = False, userId = 2,
          createdAt = utf16 ''2023-12-31''\<rparr>"

definition shelf :: app where
  "shelf = \<lparr>todos = [milk, eggs, cow], filteredTodos = [], currentPage = 1,
            searchInput = [], fromDate = [], toDate = [], sent = []\<rparr>"

text \<open>Eleven items as \<open>GET /todos\<close> may return them, and the state after loading them.\<close>

definition eleven :: "remote_todo list" where
  "eleven = map (\<lambda>i. \<lparr>remote_id = i, remote_todo = utf16 ''task'', remote_completed = False,
                        remote_userId = 1\<rparr>) [1, 2, 3, 4, 5, 6, 7, 8, 9, 10, 11]"

definition loaded :: app where
  "loaded = handle (Load (Resolved eleven) (\<lambda>i. march_first)) (TodoApp [] [] [])"

text \<open>A collection in which two todos carry the id 1.\<close>

definition twins :: app where
  "twins = shelf\<lparr>todos := [milk, eggs, milk\<lparr>title := utf16 ''Buy more milk''\<rparr>]\<rparr>"

text \<open>
  Two items of the service, loaded into a fresh application, the first of which is then
  deleted; and an answer to \<open>POST /todos/add\<close> that carries no id.
\<close>

definition pair :: "remote_todo list" where
  "pair = [\<lparr>remote_id = 1, remote_todo = utf16 ''Do something nice'', remote_completed = True,
            remote_userId = 26\<rparr>,
           \<lparr>remote_id = 2, remote_todo = utf16 ''Memorize a poem'', remote_completed = False,
            remote_userId = 13\<rparr>]"

definition one_left :: app where
  "one_left = handle (Delete 1 True (Resolved ()))
                (handle (Load (Resolved pair) (\<lambda>i. march_first)) (TodoApp [] [] []))"

definition no_id :: add_response where
  "no_id = \<lparr>response_id = None, response_todo = Some buy_milk,
            response_completed = False, response_userId = 1\<rparr>"

text \<open>An answer to \<open>POST /todos/add\<close> that echoes the posted fields with the id 255.\<close>

definition echo255 :: add_response where
  "echo255 = \<lparr>response_id = Some 255, response_todo = Some buy_milk,
              response_completed = False, response_userId = 1\<rparr>"



section \<open>Filtering\<close>

lemma toLowerCase_Nil: "toLowerCase [] = []"
  by (simp add: toLowerCase_def CodePointsToString_def)







subsection \<open>Strings on which lower-casing acts code unit by code unit\<close>






















text \<open>
  C3. With an empty search text and no date chosen in either date input, \<open>applyFilters\<close>
  leaves the whole collection, unchanged, in \<open>filteredTodos\<close>.
\<close>

theorem applyFilters_identity:
  "searchInput st = [] \<Longrightarrow> fromDate st = [] \<Longrightarrow> toDate st = []
   \<Longrightarrow> filteredTodos (applyFilters st) = todos st"
  by (simp add: applyFilters_def matchesSearch_def matchesFromDate_def matchesToDate_def
        toLowerCase_Nil)

theorem applyFilters_identity_witness:
  "searchInput shelf = [] \<and> fromDate shelf = [] \<and> toDate shelf = []
   \<and> filteredTodos (applyFilters shelf) = [milk, eggs, cow]"
  using applyFilters_identity[of shelf] by (simp add: shelf_def)

section \<open>Pagination\<close>

lemma ceil_div10_upper: "(n::nat) \<le> ((n + 9) div 10) * 10"
  by arith

lemma ceil_div10_lower: "((n + 9) div 10) * 10 < (n::nat) + 10"
  by arith

lemma ceil_div10_least: "(n::nat) \<le> k * 10 \<Longrightarrow> (n + 9) div 10 \<le> k"
  by arith

lemma ceiling_div10: "\<lceil>real n / 10\<rceil> = int ((n + 9) div 10)"
proof (rule ceiling_unique)
  have "real (((n + 9) div 10) * 10) < real (n + 10)"
    using ceil_div10_lower[of n] by (simp only: of_nat_less_iff)
  then show "of_int (int ((n + 9) div 10)) - 1 < real n / 10" by simp
  have "real n \<le> real (((n + 9) div 10) * 10)"
    using ceil_div10_upper[of n] by (simp only: of_nat_le_iff)
  then show "real n / 10 \<le> of_int (int ((n + 9) div 10))" by simp
qed

lemma totalPages_div: "totalPages st = (length (filteredTodos st) + 9) div 10"
  by (simp add: totalPages_def todosPerPage_def ceiling_div10)

lemma pageCount_spec_totalPages: "pageCount_spec st = max 1 (int (totalPages st))"
  by (simp add: pageCount_spec_def totalPages_def todosPerPage_def ceiling_div10)

text \<open>
  C4, as the code has it. The page count that \<open>renderPagination\<close> and \<open>goToPage\<close> compute
  for a filtered sequence of length \<open>n\<close> with page size 10 is the ceiling of \<open>n / 10\<close>, the
  least \<open>k\<close> with \<open>n \<le> 10 k\<close>; no minimum is applied, so it is 0 exactly when the sequence
  is empty.
\<close>

theorem totalPages_ceiling:
  "int (totalPages st) = \<lceil>real (length (filteredTodos st)) / 10\<rceil>
   \<and> totalPages st = (length (filteredTodos st) + 9) div 10
   \<and> (totalPages st = 0) = (filteredTodos st = [])
   \<and> length (filteredTodos st) \<le> totalPages st * 10
   \<and> (\<forall>k. length (filteredTodos st) \<le> k * 10 \<longrightarrow> totalPages st \<le> k)"
proof -
  let ?n = "length (filteredTodos st)"
  have d: "totalPages st = (?n + 9) div 10" by (rule totalPages_div)
  have c: "int (totalPages st) = \<lceil>real ?n / 10\<rceil>"
    by (simp add: d ceiling_div10)
  have z: "(totalPages st = 0) = (filteredTodos st = [])"
    unfolding d by (cases "filteredTodos st") simp_all
  have u: "?n \<le> totalPages st * 10" unfolding d by (rule ceil_div10_upper)
  have l: "\<forall>k. ?n \<le> k * 10 \<longrightarrow> totalPages st \<le> k"
    unfolding d by (simp add: ceil_div10_least)
  from c d z u l show ?thesis by blast
qed

theorem totalPages_ceiling_witness:
  "totalPages (shelf\<lparr>filteredTodos := replicate 25 milk\<rparr>) = 3
   \<and> totalPages shelf = 0"
  using totalPages_ceiling[of "shelf\<lparr>filteredTodos := replicate 25 milk\<rparr>"]
        totalPages_ceiling[of shelf]
  by (simp add: shelf_def)

text \<open>
  C4, as the specification states it, asks for a page count of at least 1 when \<open>n = 0\<close>.
  For the empty filtered sequence of a fresh application the code computes 0.
\<close>

theorem totalPages_minimum_counterexample:
  "filteredTodos (TodoApp [] [] []) = []
   \<and> totalPages (TodoApp [] [] []) = 0
   \<and> pageCount_spec (TodoApp [] [] []) = 1
   \<and> int (totalPages (TodoApp [] [] [])) \<noteq> pageCount_spec (TodoApp [] [] [])"
  by (simp add: totalPages_def pageCount_spec_def TodoApp_def)

subsection \<open>The current page stays in range\<close>

lemma todos_applyFilters: "todos (applyFilters st) = todos st"
  by (simp add: applyFilters_def Let_def)

lemma currentPage_applyFilters: "currentPage (applyFilters st) = 1"
  by (simp add: applyFilters_def Let_def)

lemma sent_applyFilters: "sent (applyFilters st) = sent st"
  by (simp add: applyFilters_def Let_def)

lemma one_le_pageCount_spec: "1 \<le> pageCount_spec st"
  by (simp add: pageCount_spec_def)

lemma pageCount_spec_sent: "pageCount_spec (st\<lparr>sent := x\<rparr>) = pageCount_spec st"
  by (simp add: pageCount_spec_def)

lemma page_in_range_applyFilters: "page_in_range (applyFilters st)"
  by (simp add: page_in_range_def currentPage_applyFilters one_le_pageCount_spec)

lemma page_in_range_sent: "page_in_range (st\<lparr>sent := x\<rparr>) = page_in_range st"
  by (simp add: page_in_range_def pageCount_spec_def)

lemma page_in_range_goToPage: "page_in_range st \<Longrightarrow> page_in_range (goToPage k st)"
  by (auto simp: goToPage_def page_in_range_def pageCount_spec_totalPages totalPages_def)

lemma page_in_range_loadTodos: "page_in_range st \<Longrightarrow> page_in_range (snd (loadTodos outcome gen st))"
  by (cases outcome) (simp_all add: loadTodos_def Let_def page_in_range_sent page_in_range_applyFilters)

lemma page_in_range_addTodo:
  "page_in_range st \<Longrightarrow> page_in_range (snd (addTodo input uid today outcome st))"
  by (cases outcome) (simp_all add: addTodo_def Let_def page_in_range_sent page_in_range_applyFilters)

lemma page_in_range_toggleTodo:
  "page_in_range st \<Longrightarrow> page_in_range (snd (toggleTodo todoId outcome st))"
  by (cases outcome)
     (simp_all add: toggleTodo_def Let_def page_in_range_sent page_in_range_applyFilters
        split: option.split)

lemma page_in_range_deleteTodo:
  "page_in_range st \<Longrightarrow> page_in_range (snd (deleteTodo todoId confirmed outcome st))"
  by (cases outcome)
     (simp_all add: deleteTodo_def Let_def page_in_range_sent page_in_range_applyFilters)

lemma page_in_range_handle: "page_in_range st \<Longrightarrow> page_in_range (handle e st)"
  by (cases e)
     (simp_all add: page_in_range_loadTodos page_in_range_addTodo page_in_range_toggleTodo
        page_in_range_deleteTodo page_in_range_applyFilters page_in_range_goToPage
        clearFilters_def)

lemma page_in_range_TodoApp: "page_in_range (TodoApp s f t)"
  by (simp add: page_in_range_def pageCount_spec_def TodoApp_def)

lemma reachable_page_in_range: "reachable st \<Longrightarrow> page_in_range st"
  by (induction rule: reachable.induct) (simp_all add: page_in_range_TodoApp page_in_range_handle)

lemma goToPage_pageCount_spec:
  assumes "page_in_range st"
  shows "currentPage (goToPage k st)
           = (if k < 1 \<or> k > pageCount_spec st then currentPage st else k)"
proof (cases "totalPages st = 0")
  case True
  then have one: "pageCount_spec st = 1" by (simp add: pageCount_spec_totalPages)
  with assms have "currentPage st = 1" by (simp add: page_in_range_def)
  with True one show ?thesis by (simp add: goToPage_def)
next
  case False
  then have "pageCount_spec st = int (totalPages st)" by (simp add: pageCount_spec_totalPages)
  then show ?thesis by (simp add: goToPage_def)
qed

lemma reachable_loaded: "reachable loaded"
  unfolding loaded_def by (rule reachable.handled, rule reachable.constructed)

lemma length_filteredTodos_loaded: "length (filteredTodos loaded) = 11 \<and> currentPage loaded = 1"
  by (simp add: loaded_def eleven_def loadTodos_def TodoApp_def applyFilters_def
      matchesSearch_def matchesFromDate_def matchesToDate_def toLowerCase_Nil)

text \<open>
  C5. In every state the application can reach, \<open>goToPage k\<close> leaves \<open>currentPage\<close> as it is
  when \<open>k < 1\<close> or \<open>k\<close> exceeds the page count, and sets it to \<open>k\<close> otherwise; it never moves
  to a nearest valid page. This holds with the page count that the code computes and with
  the page count of the specification, which is at least 1: when the filtered collection is
  empty the code returns at its guard, and the current page is 1 already. In particular, with
  a page count of at most 1 the current page after \<open>goToPage 1\<close> is 1. The collections are
  not touched.
\<close>

theorem goToPage_rejects_or_sets:
  assumes "reachable st"
  shows "currentPage (goToPage k st)
           = (if k < 1 \<or> k > int (totalPages st) then currentPage st else k)
         \<and> currentPage (goToPage k st)
           = (if k < 1 \<or> k > pageCount_spec st then currentPage st else k)
         \<and> (pageCount_spec st \<le> 1 \<longrightarrow> currentPage (goToPage 1 st) = 1)
         \<and> todos (goToPage k st) = todos st
         \<and> filteredTodos (goToPage k st) = filteredTodos st"
proof -
  have inv: "page_in_range st" using assms by (rule reachable_page_in_range)
  have a: "currentPage (goToPage k st)
           = (if k < 1 \<or> k > int (totalPages st) then currentPage st else k)"
    by (simp add: goToPage_def)
  have b: "currentPage (goToPage k st)
           = (if k < 1 \<or> k > pageCount_spec st then currentPage st else k)"
    using inv by (rule goToPage_pageCount_spec)
  have "1 \<le> pageCount_spec st" by (rule one_le_pageCount_spec)
  then have c: "pageCount_spec st \<le> 1 \<longrightarrow> currentPage (goToPage 1 st) = 1"
    using goToPage_pageCount_spec[OF inv, of 1] by simp
  have d: "todos (goToPage k st) = todos st" by (simp add: goToPage_def)
  have e: "filteredTodos (goToPage k st) = filteredTodos st" by (simp add: goToPage_def)
  from a b c d e show ?thesis by simp
qed

theorem goToPage_rejects_or_sets_witness:
  "reachable loaded \<and> reachable (TodoApp [] [] [])
   \<and> currentPage (goToPage 2 loaded) = 2
   \<and> currentPage (goToPage 3 loaded) = 1
   \<and> currentPage (goToPage 0 loaded) = 1
   \<and> currentPage (goToPage 1 (TodoApp [] [] [])) = 1"
  using goToPage_rejects_or_sets[OF reachable_loaded, of 2]
        goToPage_rejects_or_sets[OF reachable_loaded, of 3]
        goToPage_rejects_or_sets[OF reachable_loaded, of 0]
        goToPage_rejects_or_sets[OF reachable.constructed, of 1 "[]" "[]" "[]"]
        reachable_loaded reachable.constructed[of "[]" "[]" "[]"]
  by (simp add: totalPages_def pageCount_spec_def todosPerPage_def length_filteredTodos_loaded
        TodoApp_def)

section \<open>The store\<close>

subsection \<open>Adding\<close>

lemma trim_empty_iff: "(trim s = []) = (\<forall>c \<in> set s. is_whitespace c)"
proof -
  have "(trim s = []) = (\<forall>c \<in> set (dropWhile is_whitespace s). is_whitespace c)"
    by (simp add: trim_def dropWhile_eq_Nil_conv)
  also have "\<dots> = (dropWhile is_whitespace s = [])"
  proof
    assume h: "\<forall>c \<in> set (dropWhile is_whitespace s). is_whitespace c"
    show "dropWhile is_whitespace s = []"
    proof (cases "dropWhile is_whitespace s")
      case Nil
      then show ?thesis .
    next
      case (Cons x xs)
      then have "\<not> is_whitespace x" using hd_dropWhile[of is_whitespace s] by simp
      moreover have "is_whitespace x" using h Cons by simp
      ultimately show ?thesis by simp
    qed
  next
    assume "dropWhile is_whitespace s = []"
    then show "\<forall>c \<in> set (dropWhile is_whitespace s). is_whitespace c"
      by (simp only: list.set ball_empty)
  qed
  also have "\<dots> = (\<forall>c \<in> set s. is_whitespace c)"
    by (simp add: dropWhile_eq_Nil_conv)
  finally show ?thesis .
qed

lemma trim_spaces: "trim blank_input = []" by code_simp

lemma trim_buy_milk: "trim typed_input = buy_milk" by code_simp

lemma trim_Buy_milk: "trim buy_milk = buy_milk" by code_simp

lemma buy_milk_not_empty: "buy_milk \<noteq> []"
  by (simp add: buy_milk_def utf16_def)

lemma addTodo_resolved:
  "trim input \<noteq> [] \<Longrightarrow>
   todos (snd (addTodo input uid today (Resolved response) st))
     = \<lparr>id_todo = (case response_id response of
                     None \<Rightarrow> int (length (todos st)) + 1
                   | Some i \<Rightarrow> if i = 0 then int (length (todos st)) + 1 else i),
        title = (case response_todo response of
                   None \<Rightarrow> trim input
                 | Some s \<Rightarrow> if s = [] then trim input else s),
        completed = response_completed response,
        userId = response_userId response,
        createdAt = today\<rparr> # todos st"
  by (simp add: addTodo_def Let_def todos_applyFilters split: option.split)

text \<open>
  C6. \<open>addTodo\<close> reports a validation error exactly when the title is empty after trimming,
  that is, when it consists of white space only; the state is then returned as it was, so no
  request has been sent. Whenever \<open>addTodo\<close> reports an error, be it the validation error or
  the rejection of the request by the service, \<open>todos\<close> is unchanged.
\<close>

theorem addTodo_failure:
  "(fst (addTodo input uid today outcome st) = ErrorShown ValidationError) = (trim input = [])
   \<and> (trim input = []) = (\<forall>c \<in> set input. is_whitespace c)
   \<and> (trim input = [] \<longrightarrow> snd (addTodo input uid today outcome st) = st)
   \<and> (\<forall>e. fst (addTodo input uid today outcome st) = ErrorShown e
          \<longrightarrow> todos (snd (addTodo input uid today outcome st)) = todos st)
   \<and> (trim input \<noteq> []
        \<longrightarrow> fst (addTodo input uid today (Rejected msg) st) = ErrorShown (RemoteError msg)
          \<and> todos (snd (addTodo input uid today (Rejected msg) st)) = todos st)"
proof -
  have a: "(fst (addTodo input uid today outcome st) = ErrorShown ValidationError)
             = (trim input = [])"
    by (cases outcome) (simp_all add: addTodo_def Let_def)
  have b: "(trim input = []) = (\<forall>c \<in> set input. is_whitespace c)"
    by (rule trim_empty_iff)
  have c: "trim input = [] \<longrightarrow> snd (addTodo input uid today outcome st) = st"
    by (simp add: addTodo_def Let_def)
  have d: "\<forall>e. fst (addTodo input uid today outcome st) = ErrorShown e
          \<longrightarrow> todos (snd (addTodo input uid today outcome st)) = todos st"
    by (cases outcome) (simp_all add: addTodo_def Let_def)
  have e: "trim input \<noteq> []
        \<longrightarrow> fst (addTodo input uid today (Rejected msg) st) = ErrorShown (RemoteError msg)
          \<and> todos (snd (addTodo input uid today (Rejected msg) st)) = todos st"
    by (simp add: addTodo_def Let_def)
  from a b c d e show ?thesis by blast
qed

theorem addTodo_failure_witness:
  "fst (addTodo blank_input 1 may_first (Resolved echo255) shelf) = ErrorShown ValidationError
   \<and> sent (snd (addTodo blank_input 1 may_first (Resolved echo255) shelf)) = []
   \<and> fst (addTodo typed_input 1 may_first (Rejected ''Network Error'') shelf)
       = ErrorShown (RemoteError ''Network Error'')
   \<and> todos (snd (addTodo typed_input 1 may_first (Rejected ''Network Error'') shelf))
       = [milk, eggs, cow]"
  using addTodo_failure[of blank_input 1 may_first "Resolved echo255" shelf]
        addTodo_failure[of typed_input 1 may_first "Rejected ''Network Error''" shelf
          "''Network Error''"]
  by (simp add: trim_spaces trim_buy_milk buy_milk_not_empty shelf_def)

text \<open>
  C7. When the trimmed title is not empty and the request is resolved by a service that
  echoes the posted fields, the new collection is the old one with one todo put in front;
  that todo carries the trimmed title and is not completed, and the todos that were present
  follow unchanged in their order.
\<close>

theorem addTodo_prepends:
  assumes "trim input \<noteq> []"
    and "echoes \<lparr>body_todo = trim input, body_completed = False, body_userId = uid\<rparr> response"
  shows "(\<exists>t. todos (snd (addTodo input uid today (Resolved response) st)) = t # todos st
             \<and> title t = trim input \<and> completed t = False \<and> userId t = uid
             \<and> createdAt t = today)
         \<and> fst (addTodo input uid today (Resolved response) st)
             = SuccessShown ''Todo added successfully!''
         \<and> sent (snd (addTodo input uid today (Resolved response) st))
             = sent st @ [POST_add \<lparr>body_todo = trim input, body_completed = False,
                                     body_userId = uid\<rparr>]"
proof -
  have a: "\<exists>t. todos (snd (addTodo input uid today (Resolved response) st)) = t # todos st
             \<and> title t = trim input \<and> completed t = False \<and> userId t = uid
             \<and> createdAt t = today"
    using assms by (simp add: addTodo_resolved echoes_def)
  have b: "fst (addTodo input uid today (Resolved response) st)
             = SuccessShown ''Todo added successfully!''"
    using assms(1) by (simp add: addTodo_def Let_def)
  have c: "sent (snd (addTodo input uid today (Resolved response) st))
             = sent st @ [POST_add \<lparr>body_todo = trim input, body_completed = False,
                                     body_userId = uid\<rparr>]"
    using assms(1) by (simp add: addTodo_def Let_def sent_applyFilters)
  from a b c show ?thesis by blast
qed

theorem addTodo_prepends_witness:
  "trim typed_input \<noteq> []
   \<and> echoes \<lparr>body_todo = trim typed_input, body_completed = False, body_userId = 1\<rparr> echo255
   \<and> (\<exists>t. todos (snd (addTodo typed_input 1 may_first (Resolved echo255) shelf))
             = t # [milk, eggs, cow]
          \<and> title t = buy_milk \<and> completed t = False)"
proof -
  have h1: "trim typed_input \<noteq> []" by (simp add: trim_buy_milk buy_milk_not_empty)
  have h2: "echoes \<lparr>body_todo = trim typed_input, body_completed = False, body_userId = 1\<rparr>
              echo255"
    by (simp add: trim_buy_milk echoes_def echo255_def)
  from addTodo_prepends[OF h1 h2, of may_first shelf] h1 h2
  show ?thesis by (simp add: trim_buy_milk buy_milk_not_empty shelf_def) blast
qed

subsection \<open>Toggling\<close>

lemma findIndex_None_iff: "(findIndex p xs = None) = (\<forall>x \<in> set xs. \<not> p x)"
  by (induction xs) (auto split: option.splits)

lemma findIndex_Some:
  "findIndex p xs = Some i \<Longrightarrow> i < length xs \<and> p (xs ! i) \<and> (\<forall>j < i. \<not> p (xs ! j))"
proof (induction xs arbitrary: i)
  case Nil
  then show ?case by simp
next
  case (Cons x xs)
  show ?case
  proof (cases "p x")
    case True
    with Cons.prems show ?thesis by simp
  next
    case False
    with Cons.prems obtain k where k: "findIndex p xs = Some k" "i = Suc k"
      by (auto split: option.splits)
    from Cons.IH[OF k(1)] False k(2) show ?thesis
      by (auto simp: nth_Cons split: nat.splits)
  qed
qed

lemma findIndex_map_cong: "map p xs = map q ys \<Longrightarrow> findIndex p xs = findIndex q ys"
proof (induction xs arbitrary: ys)
  case Nil
  then show ?case by simp
next
  case (Cons x xs)
  then obtain y ys' where ys: "ys = y # ys'" by (cases ys) auto
  with Cons.prems have "p x = q y" "map p xs = map q ys'" by simp_all
  with Cons.IH[of ys'] ys show ?case by simp
qed

lemma findIndex_key_cong:
  assumes "map f xs = map f ys"
  shows "findIndex (\<lambda>t. f t = k) xs = findIndex (\<lambda>t. f t = k) ys"
proof -
  have "map (\<lambda>t. f t = k) xs = map (\<lambda>v. v = k) (map f xs)" by (simp add: comp_def)
  also have "\<dots> = map (\<lambda>v. v = k) (map f ys)" by (simp only: assms)
  also have "\<dots> = map (\<lambda>t. f t = k) ys" by (simp add: comp_def)
  finally show ?thesis by (rule findIndex_map_cong)
qed

lemma toggleTodo_absent:
  "todoId \<notin> id_todo ` set (todos st) \<Longrightarrow> toggleTodo todoId outcome st = (Silent, st)"
proof -
  assume "todoId \<notin> id_todo ` set (todos st)"
  then have "findIndex (\<lambda>t. id_todo t = todoId) (todos st) = None"
    by (auto simp: findIndex_None_iff)
  then show ?thesis by (simp add: toggleTodo_def)
qed

lemma toggleTodo_todos:
  "findIndex (\<lambda>t. id_todo t = todoId) (todos st) = Some i \<Longrightarrow>
   todos (snd (toggleTodo todoId outcome st))
     = (todos st)[i := (todos st ! i)\<lparr>completed := \<not> completed (todos st ! i)\<rparr>]"
  by (cases outcome) (simp_all add: toggleTodo_def Let_def todos_applyFilters)

lemma toggleTodo_notice:
  "fst (toggleTodo todoId outcome st) \<noteq> ErrorShown e"
  by (cases outcome) (simp_all add: toggleTodo_def Let_def split: option.split)

lemma flip_flip:
  "(t\<lparr>completed := \<not> completed t\<rparr>)\<lparr>completed := \<not> completed (t\<lparr>completed := \<not> completed t\<rparr>)\<rparr>
     = (t::todo)"
  by simp

lemma map_id_todo_flip:
  "i < length xs \<Longrightarrow> map id_todo (xs[i := (xs ! i)\<lparr>completed := b\<rparr>]) = map id_todo xs"
proof -
  assume len: "i < length xs"
  have "map id_todo (xs[i := (xs ! i)\<lparr>completed := b\<rparr>])
          = (map id_todo xs)[i := id_todo ((xs ! i)\<lparr>completed := b\<rparr>)]"
    by (rule map_update)
  also have "id_todo ((xs ! i)\<lparr>completed := b\<rparr>) = map id_todo xs ! i"
    using len by simp
  also have "(map id_todo xs)[i := map id_todo xs ! i] = map id_todo xs"
    by (rule list_update_id)
  finally show ?thesis .
qed

lemma toggleTodo_twice:
  "todos (snd (toggleTodo todoId o2 (snd (toggleTodo todoId o1 st)))) = todos st"
proof (cases "findIndex (\<lambda>t. id_todo t = todoId) (todos st)")
  case None
  then show ?thesis by (simp add: toggleTodo_def)
next
  case (Some i)
  let ?xs = "todos st"
  let ?f = "\<lambda>t. t\<lparr>completed := \<not> completed t\<rparr>"
  let ?st1 = "snd (toggleTodo todoId o1 st)"
  from findIndex_Some[OF Some] have len: "i < length ?xs" by simp
  have t1: "todos ?st1 = ?xs[i := ?f (?xs ! i)]"
    by (rule toggleTodo_todos[OF Some])
  have "map id_todo (todos ?st1) = map id_todo ?xs"
    unfolding t1 using len by (rule map_id_todo_flip)
  then have "findIndex (\<lambda>t. id_todo t = todoId) (todos ?st1)
               = findIndex (\<lambda>t. id_todo t = todoId) ?xs"
    by (rule findIndex_key_cong)
  with Some have "findIndex (\<lambda>t. id_todo t = todoId) (todos ?st1) = Some i"
    by simp
  from toggleTodo_todos[OF this, of o2]
  have "todos (snd (toggleTodo todoId o2 ?st1)) = (todos ?st1)[i := ?f (todos ?st1 ! i)]" .
  also have "\<dots> = ?xs[i := ?f (?f (?xs ! i))]"
    unfolding t1 using len by (simp only: nth_list_update_eq list_update_overwrite)
  also have "\<dots> = ?xs[i := ?xs ! i]" by (simp only: flip_flip)
  also have "\<dots> = ?xs" by (rule list_update_id)
  finally show ?thesis .
qed

text \<open>
  C8. \<open>toggleTodo\<close> returns the state as it was, silently, when no todo has the id. When
  some todo has it, the first such todo has its \<open>completed\<close> flag flipped and nothing else
  in \<open>todos\<close> changes, whatever the service answers; when the request is rejected the flip
  stays and the rejection is only logged. No outcome is an error shown to the user.
\<close>

theorem toggleTodo_optimistic:
  "(todoId \<notin> id_todo ` set (todos st) \<longrightarrow> toggleTodo todoId outcome st = (Silent, st))
   \<and> (todoId \<in> id_todo ` set (todos st) \<longrightarrow>
        (\<exists>i < length (todos st).
            id_todo (todos st ! i) = todoId
          \<and> (\<forall>j < i. id_todo (todos st ! j) \<noteq> todoId)
          \<and> todos (snd (toggleTodo todoId outcome st))
              = (todos st)[i := (todos st ! i)\<lparr>completed := \<not> completed (todos st ! i)\<rparr>]
          \<and> todos (snd (toggleTodo todoId (Rejected msg) st))
              = (todos st)[i := (todos st ! i)\<lparr>completed := \<not> completed (todos st ! i)\<rparr>]
          \<and> completed (todos (snd (toggleTodo todoId (Rejected msg) st)) ! i)
              = (\<not> completed (todos st ! i))))
   \<and> fst (toggleTodo todoId (Rejected msg) st) \<in> {Silent, Warned msg}
   \<and> (\<forall>e. fst (toggleTodo todoId outcome st) \<noteq> ErrorShown e)"
proof -
  have a: "todoId \<notin> id_todo ` set (todos st) \<longrightarrow> toggleTodo todoId outcome st = (Silent, st)"
    by (simp add: toggleTodo_absent)
  have b: "todoId \<in> id_todo ` set (todos st) \<longrightarrow>
        (\<exists>i < length (todos st).
            id_todo (todos st ! i) = todoId
          \<and> (\<forall>j < i. id_todo (todos st ! j) \<noteq> todoId)
          \<and> todos (snd (toggleTodo todoId outcome st))
              = (todos st)[i := (todos st ! i)\<lparr>completed := \<not> completed (todos st ! i)\<rparr>]
          \<and> todos (snd (toggleTodo todoId (Rejected msg) st))
              = (todos st)[i := (todos st ! i)\<lparr>completed := \<not> completed (todos st ! i)\<rparr>]
          \<and> completed (todos (snd (toggleTodo todoId (Rejected msg) st)) ! i)
              = (\<not> completed (todos st ! i)))"
  proof
    assume "todoId \<in> id_todo ` set (todos st)"
    then have "findIndex (\<lambda>t. id_todo t = todoId) (todos st) \<noteq> None"
      by (auto simp: findIndex_None_iff)
    then obtain i where i: "findIndex (\<lambda>t. id_todo t = todoId) (todos st) = Some i"
      by blast
    from findIndex_Some[OF i]
    have p: "i < length (todos st)" "id_todo (todos st ! i) = todoId"
      "\<forall>j < i. id_todo (todos st ! j) \<noteq> todoId"
      by simp_all
    from p(1) have "completed (todos (snd (toggleTodo todoId (Rejected msg) st)) ! i)
              = (\<not> completed (todos st ! i))"
      by (simp add: toggleTodo_todos[OF i])
    with p toggleTodo_todos[OF i] show "\<exists>i < length (todos st).
            id_todo (todos st ! i) = todoId
          \<and> (\<forall>j < i. id_todo (todos st ! j) \<noteq> todoId)
          \<and> todos (snd (toggleTodo todoId outcome st))
              = (todos st)[i := (todos st ! i)\<lparr>completed := \<not> completed (todos st ! i)\<rparr>]
          \<and> todos (snd (toggleTodo todoId (Rejected msg) st))
              = (todos st)[i := (todos st ! i)\<lparr>completed := \<not> completed (todos st ! i)\<rparr>]
          \<and> completed (todos (snd (toggleTodo todoId (Rejected msg) st)) ! i)
              = (\<not> completed (todos st ! i))"
      by blast
  qed
  have c: "fst (toggleTodo todoId (Rejected msg) st) \<in> {Silent, Warned msg}"
    by (simp add: toggleTodo_def Let_def split: option.split)
  have d: "\<forall>e. fst (toggleTodo todoId outcome st) \<noteq> ErrorShown e"
    by (simp add: toggleTodo_notice)
  from a b c d show ?thesis by blast
qed

theorem toggleTodo_optimistic_witness:
  "9 \<notin> id_todo ` set (todos shelf) \<and> toggleTodo 9 (Rejected ''Network Error'') shelf = (Silent, shelf)
   \<and> 2 \<in> id_todo ` set (todos shelf)
   \<and> todos (snd (toggleTodo 2 (Rejected ''Network Error'') shelf))
        = [milk, eggs\<lparr>completed := False\<rparr>, cow]
   \<and> fst (toggleTodo 2 (Rejected ''Network Error'') shelf) = Warned ''Network Error''"
proof -
  have e: "toggleTodo 2 (Rejected ''Network Error'') shelf
             = (Warned ''Network Error'',
                shelf\<lparr>todos := [milk, eggs\<lparr>completed := False\<rparr>, cow],
                      filteredTodos := [milk, eggs\<lparr>completed := False\<rparr>, cow],
                      sent := [PUT_todo 2 False]\<rparr>)"
    by (simp add: toggleTodo_def Let_def shelf_def milk_def eggs_def cow_def applyFilters_def
          matchesSearch_def matchesFromDate_def matchesToDate_def toLowerCase_Nil)
  have m: "9 \<notin> id_todo ` set (todos shelf)" "2 \<in> id_todo ` set (todos shelf)"
    by (simp_all add: shelf_def milk_def eggs_def cow_def)
  from toggleTodo_optimistic[of 9 shelf "Rejected ''Network Error''" "''Network Error''"]
       toggleTodo_optimistic[of 2 shelf "Rejected ''Network Error''" "''Network Error''"] m e
  show ?thesis by simp
qed

text \<open>
  C9. Toggling the same id twice in succession gives back the collection as it was, however
  the two requests settle; when the id is present, the flag of its todo is flipped after the
  first call and back at its original value after the second.
\<close>

theorem toggleTodo_involution:
  "todos (snd (toggleTodo todoId o2 (snd (toggleTodo todoId o1 st)))) = todos st
   \<and> (todoId \<in> id_todo ` set (todos st) \<longrightarrow>
        (\<exists>i < length (todos st).
            id_todo (todos st ! i) = todoId
          \<and> completed (todos (snd (toggleTodo todoId o1 st)) ! i) = (\<not> completed (todos st ! i))
          \<and> completed (todos (snd (toggleTodo todoId o2 (snd (toggleTodo todoId o1 st)))) ! i)
              = completed (todos st ! i)))"
proof -
  have a: "todos (snd (toggleTodo todoId o2 (snd (toggleTodo todoId o1 st)))) = todos st"
    by (rule toggleTodo_twice)
  have b: "todoId \<in> id_todo ` set (todos st) \<longrightarrow>
        (\<exists>i < length (todos st).
            id_todo (todos st ! i) = todoId
          \<and> completed (todos (snd (toggleTodo todoId o1 st)) ! i) = (\<not> completed (todos st ! i))
          \<and> completed (todos (snd (toggleTodo todoId o2 (snd (toggleTodo todoId o1 st)))) ! i)
              = completed (todos st ! i))"
  proof
    assume "todoId \<in> id_todo ` set (todos st)"
    then have "findIndex (\<lambda>t. id_todo t = todoId) (todos st) \<noteq> None"
      by (auto simp: findIndex_None_iff)
    then obtain i where i: "findIndex (\<lambda>t. id_todo t = todoId) (todos st) = Some i"
      by blast
    from findIndex_Some[OF i]
    have p: "i < length (todos st)" "id_todo (todos st ! i) = todoId" by simp_all
    from p(1) have "completed (todos (snd (toggleTodo todoId o1 st)) ! i)
                      = (\<not> completed (todos st ! i))"
      by (simp add: toggleTodo_todos[OF i])
    with p a show "\<exists>i < length (todos st).
            id_todo (todos st ! i) = todoId
          \<and> completed (todos (snd (toggleTodo todoId o1 st)) ! i) = (\<not> completed (todos st ! i))
          \<and> completed (todos (snd (toggleTodo todoId o2 (snd (toggleTodo todoId o1 st)))) ! i)
              = completed (todos st ! i)"
      by auto
  qed
  from a b show ?thesis by blast
qed

theorem toggleTodo_involution_witness:
  "2 \<in> id_todo ` set (todos shelf)
   \<and> todos shelf = [milk, eggs, cow]
   \<and> todos (snd (toggleTodo 2 (Resolved ())
               (snd (toggleTodo 2 (Rejected ''Network Error'') shelf)))) = todos shelf
   \<and> (\<exists>i < length (todos shelf).
          id_todo (todos shelf ! i) = 2
        \<and> completed (todos (snd (toggleTodo 2 (Rejected ''Network Error'') shelf)) ! i)
            = (\<not> completed (todos shelf ! i))
        \<and> completed (todos (snd (toggleTodo 2 (Resolved ())
                         (snd (toggleTodo 2 (Rejected ''Network Error'') shelf)))) ! i)
            = completed (todos shelf ! i))"
proof -
  have m: "2 \<in> id_todo ` set (todos shelf)"
    by (simp add: shelf_def milk_def eggs_def cow_def)
  have t: "todos shelf = [milk, eggs, cow]" by (simp add: shelf_def)
  from toggleTodo_involution[of 2 "Resolved ()" "Rejected ''Network Error''" shelf] m
  have "todos (snd (toggleTodo 2 (Resolved ())
               (snd (toggleTodo 2 (Rejected ''Network Error'') shelf)))) = todos shelf
   \<and> (\<exists>i < length (todos shelf).
          id_todo (todos shelf ! i) = 2
        \<and> completed (todos (snd (toggleTodo 2 (Rejected ''Network Error'') shelf)) ! i)
            = (\<not> completed (todos shelf ! i))
        \<and> completed (todos (snd (toggleTodo 2 (Resolved ())
                         (snd (toggleTodo 2 (Rejected ''Network Error'') shelf)))) ! i)
            = completed (todos shelf ! i))"
    by blast
  with m t show ?thesis by (intro conjI) (erule conjunct1 conjunct2 | assumption)+
qed

subsection \<open>Deleting\<close>

text \<open>
  C10. After a confirmed \<open>deleteTodo\<close> the collection consists of the todos of the old one
  whose id differs from the given id, in their order: every todo with that id is gone, also
  when several share it, and a collection without that id is unchanged.
\<close>

theorem deleteTodo_removes_all:
  "todos (snd (deleteTodo todoId True outcome st))
     = filter (\<lambda>t. id_todo t \<noteq> todoId) (todos st)
   \<and> subseq (todos (snd (deleteTodo todoId True outcome st))) (todos st)
   \<and> (\<forall>t \<in> set (todos st).
         (t \<in> set (todos (snd (deleteTodo todoId True outcome st)))) = (id_todo t \<noteq> todoId))
   \<and> (todoId \<notin> id_todo ` set (todos st)
        \<longrightarrow> todos (snd (deleteTodo todoId True outcome st)) = todos st)"
proof -
  have a: "todos (snd (deleteTodo todoId True outcome st))
             = filter (\<lambda>t. id_todo t \<noteq> todoId) (todos st)"
    by (cases outcome) (simp_all add: deleteTodo_def Let_def todos_applyFilters)
  have b: "todoId \<notin> id_todo ` set (todos st)
             \<longrightarrow> filter (\<lambda>t. id_todo t \<noteq> todoId) (todos st) = todos st"
    by (auto simp: filter_id_conv)
  show ?thesis unfolding a using b by auto
qed

theorem deleteTodo_removes_all_witness:
  "todos (snd (deleteTodo 1 True (Rejected ''Network Error'') twins)) = [eggs]
   \<and> 7 \<notin> id_todo ` set (todos twins)
   \<and> todos (snd (deleteTodo 7 True (Resolved ()) twins)) = todos twins"
proof -
  have m: "7 \<notin> id_todo ` set (todos twins)"
    by (simp add: twins_def shelf_def milk_def eggs_def)
  from deleteTodo_removes_all[of 1 "Rejected ''Network Error''" twins]
       deleteTodo_removes_all[of 7 "Resolved ()" twins] m
  show ?thesis by (simp add: twins_def shelf_def milk_def eggs_def)
qed

subsection \<open>Distinct ids\<close>

text \<open>
  Toggling and deleting keep the ids distinct, and so does loading a list whose ids are
  distinct. Adding keeps them distinct exactly when the id given to the new todo is not in
  the collection yet.
\<close>

lemma distinct_ids_toggleTodo:
  "distinct (map id_todo (todos st))
   \<Longrightarrow> distinct (map id_todo (todos (snd (toggleTodo todoId outcome st))))"
proof (cases "findIndex (\<lambda>t. id_todo t = todoId) (todos st)")
  case None
  assume "distinct (map id_todo (todos st))"
  with None show ?thesis by (simp add: toggleTodo_def)
next
  case (Some i)
  assume d: "distinct (map id_todo (todos st))"
  from findIndex_Some[OF Some] have "i < length (todos st)" by simp
  then show ?thesis using d
    by (simp only: toggleTodo_todos[OF Some] map_id_todo_flip)
qed

lemma distinct_ids_deleteTodo:
  "distinct (map id_todo (todos st))
   \<Longrightarrow> distinct (map id_todo (todos (snd (deleteTodo todoId confirmed outcome st))))"
  by (cases outcome)
     (simp_all add: deleteTodo_def Let_def todos_applyFilters distinct_map_filter)

lemma map_id_todo_loaded:
  "map (id_todo \<circ> (\<lambda>(i, r). \<lparr>id_todo = remote_id r, title = remote_todo r,
                                 completed = remote_completed r, userId = remote_userId r,
                                 createdAt = gen i\<rparr>)) (enumerate n rs) = map remote_id rs"
  by (induction rs arbitrary: n) simp_all

lemma distinct_ids_loadTodos:
  "distinct (map id_todo (todos st)) \<Longrightarrow> (\<forall>rs. outcome = Resolved rs \<longrightarrow> distinct (map remote_id rs))
   \<Longrightarrow> distinct (map id_todo (todos (snd (loadTodos outcome gen st))))"
  by (cases outcome)
     (simp_all add: loadTodos_def Let_def todos_applyFilters map_id_todo_loaded)

lemma distinct_ids_addTodo:
  "distinct (map id_todo (todos st)) \<Longrightarrow> trim input \<noteq> [] \<Longrightarrow>
   distinct (map id_todo (todos (snd (addTodo input uid today (Resolved response) st))))
     = ((case response_id response of
           None \<Rightarrow> int (length (todos st)) + 1
         | Some i \<Rightarrow> if i = 0 then int (length (todos st)) + 1 else i)
        \<notin> id_todo ` set (todos st))"
  by (simp add: addTodo_resolved)

lemma todos_one_left:
  "todos one_left = [\<lparr>id_todo = 2, title = utf16 ''Memorize a poem'', completed = False, userId = 13,
                       createdAt = march_first\<rparr>]"
  by (simp add: one_left_def pair_def loadTodos_def deleteTodo_def TodoApp_def applyFilters_def
        matchesSearch_def matchesFromDate_def matchesToDate_def toLowerCase_Nil)

lemma reachable_one_left: "reachable one_left"
  unfolding one_left_def by (intro reachable.handled reachable.constructed)

text \<open>
  C1 asks that a successful add keeps the ids distinct, also when the service returns no id
  and \<open>addTodo\<close> makes one up as the length of the collection plus one. After loading the
  ids 1 and 2 and deleting the todo 1, the collection has length 1 and holds the id 2; the
  next add without an id from the service is given the id 2 as well. A following delete of
  the id 2 then removes both todos.
\<close>

theorem addTodo_synthesized_id_collides:
  "reachable one_left
   \<and> map id_todo (todos one_left) = [2]
   \<and> distinct (map id_todo (todos one_left))
   \<and> fst (addTodo buy_milk 1 may_first (Resolved no_id) one_left)
       = SuccessShown ''Todo added successfully!''
   \<and> map id_todo (todos (snd (addTodo buy_milk 1 may_first (Resolved no_id) one_left)))
       = [2, 2]
   \<and> \<not> distinct (map id_todo
          (todos (snd (addTodo buy_milk 1 may_first (Resolved no_id) one_left))))
   \<and> todos (snd (deleteTodo 2 True (Resolved ())
          (snd (addTodo buy_milk 1 may_first (Resolved no_id) one_left)))) = []"
  by (simp add: reachable_one_left todos_one_left addTodo_def trim_Buy_milk buy_milk_not_empty
        no_id_def
        todos_applyFilters deleteTodo_def Let_def)

end
